theory Spec2Isabelle
  imports Complex_Main
begin

section \<open>Stryktipset prediction engine\<close>

text \<open>
  A shallow embedding of \<^verbatim>\<open>src/prediction_engine.py\<close> (class
  \<^verbatim>\<open>StryktipsetPredictor\<close>) and of the round-number function it shares with
  \<^verbatim>\<open>src/data_processor.py\<close>.

  Python floats are idealised as exact rationals (\<^typ>\<open>rat\<close>): every arithmetic
  operation of the source is the exact operation here, and \<^verbatim>\<open>round(x, 3)\<close> is
  rounding to the nearest multiple of \<open>1/1000\<close>, ties to the even multiple, as
  Python documents it. Every exception the modelled code can raise is a value
  \<open>Inl e\<close> of the result type \<open>py_error + 'a\<close>.

  Two things the doubles of the program do and the rationals do not: a value that is
  an exact decimal tie here can lie just beside the tie as a double, so that the
  program returns the other neighbouring multiple of \<open>1/1000\<close>; and a reciprocal
  can overflow (a price below about \<open>1e-308\<close>) or vanish (an infinite price).
  Statements that bound the sum of rounded values therefore keep a tolerance of
  \<open>1e-6\<close> on top of the exact bound, and statements about the value computed from
  prices take prices between 1 and 1000000.
\<close>

subsection \<open>Python values and errors\<close>

datatype py_error = TypeError | ZeroDivisionError | StoreError string

text \<open>A value stored in a JSON dictionary of the store: a number or a string.\<close>

datatype pyval = Num rat | Str string

text \<open>\<^verbatim>\<open>d.get(k, default)\<close> on a dictionary kept as an association list.\<close>

definition dict_get :: "(string \<times> 'v) list \<Rightarrow> string \<Rightarrow> 'v \<Rightarrow> 'v" where
  "dict_get d k dflt = (case map_of d k of None \<Rightarrow> dflt | Some v \<Rightarrow> v)"

text \<open>\<^verbatim>\<open>a / b\<close> on numbers: division by zero raises.\<close>

definition py_truediv :: "rat \<Rightarrow> rat \<Rightarrow> py_error + rat" where
  "py_truediv a b = (if b = 0 then Inl ZeroDivisionError else Inr (a / b))"

text \<open>\<^verbatim>\<open>round(x, 3)\<close>: the nearest multiple of \<open>1/1000\<close>, ties to even.\<close>

definition py_round3 :: "rat \<Rightarrow> rat" where
  "py_round3 x =
     (let y = x * 1000; f = \<lfloor>y\<rfloor>; d = y - of_int f
      in of_int (if d < 1 / 2 then f
                 else if 1 / 2 < d then f + 1
                 else if even f then f else f + 1) / 1000)"

subsection \<open>Data model\<close>

text \<open>
  A match is a dictionary; the engine reads three of its keys, each of which may be
  absent (\<open>None\<close>). A team history is a dictionary of which the engine reads
  \<^verbatim>\<open>recent_form\<close> only (most recent game first; 1 win, 0.5 draw, 0 loss). The odds
  block is a dictionary with the keys \<^verbatim>\<open>home_win\<close>, \<^verbatim>\<open>draw\<close>,
  \<^verbatim>\<open>away_win\<close>, \<^verbatim>\<open>source\<close>, \<^verbatim>\<open>last_updated\<close>, any of which may be missing.
\<close>

record team_history =
  recent_form :: "rat list option"

record match =
  home_team_history :: "team_history option"
  away_team_history :: "team_history option"
  odds :: "(string \<times> pyval) list option"

text \<open>The dictionary returned by each outcome model.\<close>

record prediction =
  home_prob :: rat
  draw_prob :: rat
  away_prob :: rat
  confidence :: rat

subsection \<open>Form score\<close>

definition form_weights :: "rat list" where
  "form_weights = [1, 8 / 10, 6 / 10, 4 / 10, 2 / 10]"

text \<open>
  \<^verbatim>\<open>np.average(a, weights=w)\<close> on one-dimensional data: the shapes must agree
  (numpy raises \<^verbatim>\<open>TypeError\<close> otherwise), the weights must not sum to zero
  (\<^verbatim>\<open>ZeroDivisionError\<close>), and the result is \<open>sum (a * w) / sum w\<close>.
\<close>

definition np_average :: "rat list \<Rightarrow> rat list \<Rightarrow> py_error + rat" where
  "np_average a w =
     (if length a \<noteq> length w then Inl TypeError
      else py_truediv (sum_list (map2 (*) a w)) (sum_list w))"

definition calculate_form_score :: "rat list \<Rightarrow> py_error + rat" where
  "calculate_form_score recent_form_list =
     (if recent_form_list = [] then Inr (1 / 2)
      else let weights = take (length recent_form_list) form_weights
           in np_average recent_form_list weights)"

subsection \<open>Form-based outcome model\<close>

text \<open>
  The three in-place divisions \<^verbatim>\<open>home_prob /= total; draw_prob /= total;
  away_prob /= total\<close> that close both the form-based and the odds-based model:
  the first of them raises when the total is zero.
\<close>

definition normalise3 :: "rat \<Rightarrow> rat \<Rightarrow> rat \<Rightarrow> py_error + rat \<times> rat \<times> rat" where
  "normalise3 h d a =
     (let total = h + d + a
      in if total = 0 then Inl ZeroDivisionError
         else Inr (h / total, d / total, a / total))"

text \<open>\<^verbatim>\<open>match.get('home_team_history', {}).get('recent_form', [])\<close>.\<close>

definition recent_form_of :: "team_history option \<Rightarrow> rat list" where
  "recent_form_of history =
     (case history of None \<Rightarrow> []
      | Some h \<Rightarrow> (case recent_form h of None \<Rightarrow> [] | Some l \<Rightarrow> l))"

definition predict_match_form_based :: "match \<Rightarrow> py_error + prediction" where
  "predict_match_form_based m =
     (case calculate_form_score (recent_form_of (home_team_history m)) of
        Inl e \<Rightarrow> Inl e
      | Inr home_form \<Rightarrow>
     (case calculate_form_score (recent_form_of (away_team_history m)) of
        Inl e \<Rightarrow> Inl e
      | Inr away_form \<Rightarrow>
        let home_advantage = 1 / 10;
            adjusted_home_form = home_form + home_advantage;
            total_strength = adjusted_home_form + away_form;
            probs =
              (if total_strength = 0 then Inr (45 / 100, 25 / 100, 30 / 100)
               else let home_p = adjusted_home_form / total_strength * (7 / 10) + 15 / 100;
                        away_p = away_form / total_strength * (7 / 10) + 15 / 100;
                        draw_p = max (1 / 10) (1 - home_p - away_p)
                    in normalise3 home_p draw_p away_p)
        in (case probs of
              Inl e \<Rightarrow> Inl e
            | Inr (home_p, draw_p, away_p) \<Rightarrow>
                Inr \<lparr>home_prob = py_round3 home_p,
                     draw_prob = py_round3 draw_p,
                     away_prob = py_round3 away_p,
                     confidence = py_round3 \<bar>home_form - away_form\<bar>\<rparr>)))"

subsection \<open>Odds-based outcome model\<close>

text \<open>\<^verbatim>\<open>1 / price\<close>: a string raises \<^verbatim>\<open>TypeError\<close>, zero raises
  \<^verbatim>\<open>ZeroDivisionError\<close>.\<close>

fun implied_probability :: "pyval \<Rightarrow> py_error + rat" where
  "implied_probability (Num p) = py_truediv 1 p"
| "implied_probability (Str s) = Inl TypeError"

definition predict_match_odds_based :: "match \<Rightarrow> py_error + prediction" where
  "predict_match_odds_based m =
     (let odds_dict = (case odds m of None \<Rightarrow> [] | Some d \<Rightarrow> d)
      in if odds_dict = [] then predict_match_form_based m
         else
           let home_odds = dict_get odds_dict ''home_win'' (Num 2);
               draw_odds = dict_get odds_dict ''draw'' (Num 3);
               away_odds = dict_get odds_dict ''away_win'' (Num 2)
           in (case implied_probability home_odds of Inl e \<Rightarrow> Inl e | Inr home_p \<Rightarrow>
              (case implied_probability draw_odds of Inl e \<Rightarrow> Inl e | Inr draw_p \<Rightarrow>
              (case implied_probability away_odds of Inl e \<Rightarrow> Inl e | Inr away_p \<Rightarrow>
              (case normalise3 home_p draw_p away_p of
                 Inl e \<Rightarrow> Inl e
               | Inr (home_n, draw_n, away_n) \<Rightarrow>
                   Inr \<lparr>home_prob = py_round3 home_n,
                        draw_prob = py_round3 draw_n,
                        away_prob = py_round3 away_n,
                        confidence = py_round3 (1 - min home_n (min draw_n away_n))\<rparr>)))))"

subsection \<open>Hybrid outcome model\<close>

definition predict_match_hybrid :: "match \<Rightarrow> py_error + prediction" where
  "predict_match_hybrid m =
     (case predict_match_form_based m of Inl e \<Rightarrow> Inl e | Inr form_prediction \<Rightarrow>
     (case predict_match_odds_based m of Inl e \<Rightarrow> Inl e | Inr odds_prediction \<Rightarrow>
        let home_p = 6 / 10 * home_prob odds_prediction + 4 / 10 * home_prob form_prediction;
            draw_p = 6 / 10 * draw_prob odds_prediction + 4 / 10 * draw_prob form_prediction;
            away_p = 6 / 10 * away_prob odds_prediction + 4 / 10 * away_prob form_prediction;
            conf = (confidence odds_prediction + confidence form_prediction) / 2
        in Inr \<lparr>home_prob = py_round3 home_p,
                draw_prob = py_round3 draw_p,
                away_prob = py_round3 away_p,
                confidence = py_round3 conf\<rparr>))"

subsection \<open>Outcome selection\<close>

text \<open>
  \<^verbatim>\<open>max(iterable, key=...)\<close> on a non-empty iterable: the first item is the
  current best, and a later item replaces it only when its key is strictly greater.
\<close>

fun py_max_key :: "('a \<Rightarrow> rat) \<Rightarrow> 'a \<Rightarrow> 'a list \<Rightarrow> 'a" where
  "py_max_key k best [] = best"
| "py_max_key k best (x # xs) = py_max_key k (if k best < k x then x else best) xs"

text \<open>
  The dictionary \<^verbatim>\<open>probs\<close> in insertion order and \<^verbatim>\<open>max(probs, key=probs.get)\<close>:
  the keys are visited in insertion order and compared by their values, which is
  modelled on the items of the dictionary.
\<close>

definition select_outcome :: "prediction \<Rightarrow> string" where
  "select_outcome p =
     (let probs = [(''1'', home_prob p), (''X'', draw_prob p), (''2'', away_prob p)]
      in fst (py_max_key snd (hd probs) (tl probs)))"

definition get_match_prediction :: "match \<Rightarrow> string \<Rightarrow> py_error + string \<times> prediction" where
  "get_match_prediction m method_name =
     (case (if method_name = ''form_based'' then predict_match_form_based m
            else if method_name = ''odds_based'' then predict_match_odds_based m
            else predict_match_hybrid m) of
        Inl e \<Rightarrow> Inl e
      | Inr p \<Rightarrow> Inr (select_outcome p, p))"

subsection \<open>Combination generator\<close>

record combination =
  method_label :: string
  combination :: "string list"
  description :: string
  confidence_tier :: string

text \<open>The three loops of \<^verbatim>\<open>generate_stryktipset_combinations\<close>, each appending one
  symbol per match; an exception raised for a match ends the loop.\<close>

fun hybrid_combo :: "match list \<Rightarrow> py_error + string list" where
  "hybrid_combo [] = Inr []"
| "hybrid_combo (m # ms) =
     (case get_match_prediction m ''hybrid'' of Inl e \<Rightarrow> Inl e | Inr (pred, details) \<Rightarrow>
     (case hybrid_combo ms of Inl e \<Rightarrow> Inl e | Inr rest \<Rightarrow> Inr (pred # rest)))"

definition conservative_pick :: "prediction \<Rightarrow> string" where
  "conservative_pick details =
     (if 25 / 100 < draw_prob details then ''X''
      else if away_prob details < home_prob details then ''1''
      else ''2'')"

fun conservative_combo :: "match list \<Rightarrow> py_error + string list" where
  "conservative_combo [] = Inr []"
| "conservative_combo (m # ms) =
     (case get_match_prediction m ''hybrid'' of Inl e \<Rightarrow> Inl e | Inr (pred, details) \<Rightarrow>
     (case conservative_combo ms of Inl e \<Rightarrow> Inl e
      | Inr rest \<Rightarrow> Inr (conservative_pick details # rest)))"

fun value_combo :: "match list \<Rightarrow> py_error + string list" where
  "value_combo [] = Inr []"
| "value_combo (m # ms) =
     (case get_match_prediction m ''form_based'' of Inl e \<Rightarrow> Inl e
      | Inr (form_pred, form_details) \<Rightarrow>
     (case get_match_prediction m ''odds_based'' of Inl e \<Rightarrow> Inl e
      | Inr (odds_pred, odds_details) \<Rightarrow>
     (case value_combo ms of Inl e \<Rightarrow> Inl e
      | Inr rest \<Rightarrow>
          Inr ((if form_pred \<noteq> odds_pred \<and> 3 / 10 < confidence form_details
                then form_pred else odds_pred) # rest))))"

definition generate_stryktipset_combinations :: "match list \<Rightarrow> py_error + combination list" where
  "generate_stryktipset_combinations matches =
     (case hybrid_combo matches of Inl e \<Rightarrow> Inl e | Inr hybrid \<Rightarrow>
     (case conservative_combo matches of Inl e \<Rightarrow> Inl e | Inr conservative \<Rightarrow>
     (case value_combo matches of Inl e \<Rightarrow> Inl e | Inr val \<Rightarrow>
        Inr [\<lparr>method_label = ''Hybrid Prediction'', combination = hybrid,
              description = ''Most likely outcome for each match'',
              confidence_tier = ''Medium''\<rparr>,
             \<lparr>method_label = ''Conservative'', combination = conservative,
              description = ''Safer picks favoring draws and home wins'',
              confidence_tier = ''High''\<rparr>,
             \<lparr>method_label = ''Value Betting'', combination = val,
              description = ''Looking for odds vs form discrepancies'',
              confidence_tier = ''Low''\<rparr>])))"

subsection \<open>Round number\<close>

text \<open>
  A \<^verbatim>\<open>datetime\<close> value with the fields the library gives it. The library's
  proleptic Gregorian ordinal (\<^verbatim>\<open>toordinal\<close>: day number, 1 January of year 1 is
  day 1) and \<^verbatim>\<open>weekday\<close> (Monday is 0, Saturday is 5) are written out. A moment is
  measured in microseconds since ordinal day 0; on well-formed values the library's
  field-wise comparison of two \<^verbatim>\<open>datetime\<close>s is the comparison of their moments,
  \<^verbatim>\<open>d + timedelta(days=k)\<close> adds \<open>k\<close> days to the moment, and
  \<^verbatim>\<open>(a - b).days\<close> is the floor of the difference of the moments in days.
\<close>

record datetime =
  year :: int
  month :: int
  day :: int
  hour :: int
  minute :: int
  second :: int
  microsecond :: int

definition is_leap :: "int \<Rightarrow> bool" where
  "is_leap y = (y mod 4 = 0 \<and> (y mod 100 \<noteq> 0 \<or> y mod 400 = 0))"

definition days_before_year :: "int \<Rightarrow> int" where
  "days_before_year yr = (let y = yr - 1 in y * 365 + y div 4 - y div 100 + y div 400)"

definition days_before_month :: "int \<Rightarrow> int \<Rightarrow> int" where
  "days_before_month yr mon =
     [0, 31, 59, 90, 120, 151, 181, 212, 243, 273, 304, 334] ! nat (mon - 1)
       + (if 2 < mon \<and> is_leap yr then 1 else 0)"

definition toordinal :: "datetime \<Rightarrow> int" where
  "toordinal d = days_before_year (year d) + days_before_month (year d) (month d) + day d"

definition weekday_of_ordinal :: "int \<Rightarrow> int" where
  "weekday_of_ordinal n = (n + 6) mod 7"

definition weekday :: "datetime \<Rightarrow> int" where
  "weekday d = weekday_of_ordinal (toordinal d)"

definition us_per_day :: int where
  "us_per_day = 86400000000"

definition time_of_day :: "datetime \<Rightarrow> int" where
  "time_of_day d = ((hour d * 60 + minute d) * 60 + second d) * 1000000 + microsecond d"

definition moment :: "datetime \<Rightarrow> int" where
  "moment d = toordinal d * us_per_day + time_of_day d"

definition midnight :: "int \<Rightarrow> int \<Rightarrow> int \<Rightarrow> datetime" where
  "midnight y m d =
     \<lparr>year = y, month = m, day = d, hour = 0, minute = 0, second = 0, microsecond = 0\<rparr>"

text \<open>\<^verbatim>\<open>StryktipsetPredictor.get_current_round_number\<close>, with the clock reading
  \<^verbatim>\<open>datetime.now()\<close> as its argument.\<close>

definition get_current_round_number :: "datetime \<Rightarrow> int" where
  "get_current_round_number now =
     (let march_first = midnight (year now) 3 1;
          first_saturday = moment march_first + (5 - weekday march_first) mod 7 * us_per_day
      in if moment now < first_saturday then 1
         else let weeks_since_start = (moment now - first_saturday) div us_per_day div 7
              in min (weeks_since_start + 1) 35)"

text \<open>\<^verbatim>\<open>StryktipsetDataProcessor.get_current_round_number\<close>, the copy in
  \<^verbatim>\<open>data_processor.py\<close>.\<close>

definition processor_get_current_round_number :: "datetime \<Rightarrow> int" where
  "processor_get_current_round_number now =
     (let march_first = midnight (year now) 3 1;
          first_saturday = moment march_first + (5 - weekday march_first) mod 7 * us_per_day
      in if moment now < first_saturday then 1
         else let weeks_since_start = (moment now - first_saturday) div us_per_day div 7
              in min (weeks_since_start + 1) 35)"

text \<open>The ordinal day of the season start the function computes for a year, and a
  clock reading whose time of day is well formed.\<close>

definition season_start :: "int \<Rightarrow> int" where
  "season_start y =
     toordinal (midnight y 3 1) + (5 - weekday (midnight y 3 1)) mod 7"

definition valid_time :: "datetime \<Rightarrow> bool" where
  "valid_time d =
     (0 \<le> hour d \<and> hour d < 24 \<and> 0 \<le> minute d \<and> minute d < 60 \<and>
      0 \<le> second d \<and> second d < 60 \<and> 0 \<le> microsecond d \<and> microsecond d < 1000000)"

subsection \<open>The external store and the prediction run\<close>

text \<open>
  The hosted store, seen through the three requests the engine sends: each either
  raises or answers with data. What is printed to the console is kept as a list of
  lines, one constructor per message of the source (the banner and the heading
  before the summary are one line here). The clock is read once: the reading
  \<open>now\<close> stands for every \<^verbatim>\<open>datetime.now()\<close> of a run.
\<close>

record prediction_record =
  round_number :: int
  record_method :: string
  record_combination :: string
  record_description :: string
  record_confidence :: string
  created_at :: datetime
  prediction_order :: nat

record store =
  select_matches :: "py_error + match list"
  delete_predictions :: "int \<Rightarrow> py_error option"
  insert_predictions :: "prediction_record list \<Rightarrow> py_error + prediction_record list"

datatype console_line =
    Loading_matches
  | Loaded_matches nat
  | No_matches_in_database
  | Error_loading_matches py_error
  | Generating_combinations
  | Storing_predictions
  | Stored_predictions nat
  | No_prediction_data_returned
  | Error_storing_predictions py_error
  | Starting_prediction_generation
  | Prediction_date datetime
  | No_matches_cannot_generate
  | Generated_predictions_header
  | Prediction_summary string string string
  | Prediction_generation_completed
  | Error_during_prediction_generation py_error

text \<open>\<^verbatim>\<open>load_current_matches\<close>: the \<^verbatim>\<open>except\<close> clause prints and returns the
  empty list.\<close>

definition load_current_matches :: "store \<Rightarrow> console_line list \<times> match list" where
  "load_current_matches st =
     (case select_matches st of
        Inr data \<Rightarrow>
          if data \<noteq> [] then ([Loading_matches, Loaded_matches (length data)], data)
          else ([Loading_matches, No_matches_in_database], [])
      | Inl e \<Rightarrow> ([Loading_matches, Error_loading_matches e], []))"

fun prediction_records :: "int \<Rightarrow> datetime \<Rightarrow> nat \<Rightarrow> combination list \<Rightarrow> prediction_record list" where
  "prediction_records current_round now i [] = []"
| "prediction_records current_round now i (p # ps) =
     \<lparr>round_number = current_round,
      record_method = method_label p,
      record_combination = concat (combination p),
      record_description = description p,
      record_confidence = confidence_tier p,
      created_at = now,
      prediction_order = i + 1\<rparr> # prediction_records current_round now (i + 1) ps"

text \<open>\<^verbatim>\<open>store_predictions\<close>: the \<^verbatim>\<open>except\<close> clause prints and re-raises. The
  result is the console output and the exception raised, if any.\<close>

definition store_predictions :: "store \<Rightarrow> datetime \<Rightarrow> combination list \<Rightarrow> console_line list \<times> py_error option" where
  "store_predictions st now predictions =
     (let current_round = get_current_round_number now
      in case delete_predictions st current_round of
           Some e \<Rightarrow> ([Storing_predictions, Error_storing_predictions e], Some e)
         | None \<Rightarrow>
             (case insert_predictions st (prediction_records current_round now 0 predictions) of
                Inl e \<Rightarrow> ([Storing_predictions, Error_storing_predictions e], Some e)
              | Inr data \<Rightarrow>
                  if data \<noteq> [] then ([Storing_predictions, Stored_predictions (length data)], None)
                  else ([Storing_predictions, No_prediction_data_returned], None)))"

text \<open>How a call of \<^verbatim>\<open>run_prediction_engine\<close> ends: it raises, it returns nothing
  (\<^verbatim>\<open>return\<close> without a value), or it returns the predictions.\<close>

datatype run_outcome = Raised py_error | Returned_nothing | Returned "combination list"

definition run_prediction_engine :: "store \<Rightarrow> datetime \<Rightarrow> console_line list \<times> run_outcome" where
  "run_prediction_engine st now =
     (let start = [Starting_prediction_generation, Prediction_date now];
          (load_out, matches) = load_current_matches st
      in if matches = [] then (start @ load_out @ [No_matches_cannot_generate], Returned_nothing)
         else
           (case generate_stryktipset_combinations matches of
              Inl e \<Rightarrow>
                (start @ load_out @ [Generating_combinations, Error_during_prediction_generation e],
                 Raised e)
            | Inr predictions \<Rightarrow>
                (case store_predictions st now predictions of
                   (store_out, Some e) \<Rightarrow>
                     (start @ load_out @ [Generating_combinations] @ store_out
                        @ [Error_during_prediction_generation e],
                      Raised e)
                 | (store_out, None) \<Rightarrow>
                     (start @ load_out @ [Generating_combinations] @ store_out
                        @ [Generated_predictions_header]
                        @ map (\<lambda>pred. Prediction_summary (method_label pred)
                                  (concat (combination pred)) (confidence_tier pred)) predictions
                        @ [Prediction_generation_completed],
                      Returned predictions))))"

subsection \<open>Specification predicates\<close>

text \<open>
  A recent-form sequence the form score accepts: at most five results, each a loss
  (0), a draw (1/2) or a win (1). A price that is present is well formed when it is a
  positive number. A match is well formed when both recent-form sequences are and
  every price present in its odds block is.
\<close>

definition valid_form :: "rat list \<Rightarrow> bool" where
  "valid_form xs = (length xs \<le> 5 \<and> (\<forall>x\<in>set xs. x = 0 \<or> x = 1 / 2 \<or> x = 1))"

definition positive_price :: "(string \<times> pyval) list \<Rightarrow> string \<Rightarrow> bool" where
  "positive_price d k =
     (case map_of d k of None \<Rightarrow> True | Some (Num p) \<Rightarrow> 0 < p | Some (Str s) \<Rightarrow> False)"

definition well_formed_match :: "match \<Rightarrow> bool" where
  "well_formed_match m =
     (valid_form (recent_form_of (home_team_history m)) \<and>
      valid_form (recent_form_of (away_team_history m)) \<and>
      (case odds m of None \<Rightarrow> True
       | Some d \<Rightarrow> positive_price d ''home_win'' \<and> positive_price d ''draw''
                    \<and> positive_price d ''away_win''))"

definition probabilities_within :: "rat \<Rightarrow> prediction \<Rightarrow> bool" where
  "probabilities_within tol p =
     (0 \<le> home_prob p \<and> home_prob p \<le> 1 \<and> 0 \<le> draw_prob p \<and> draw_prob p \<le> 1 \<and>
      0 \<le> away_prob p \<and> away_prob p \<le> 1 \<and>
      \<bar>home_prob p + draw_prob p + away_prob p - 1\<bar> \<le> tol)"

text \<open>
  The tolerance granted to double arithmetic. A decimal price is a number from 1
  (a certain outcome) to 1000000; a match is ordinary when both recent-form sequences
  are valid and every price present in its odds block is a decimal price.
\<close>

definition float_tolerance :: rat where
  "float_tolerance = 1 / 1000000"

definition decimal_price :: "(string \<times> pyval) list \<Rightarrow> string \<Rightarrow> bool" where
  "decimal_price d k =
     (case map_of d k of None \<Rightarrow> True
      | Some (Num p) \<Rightarrow> 1 \<le> p \<and> p \<le> 1000000
      | Some (Str s) \<Rightarrow> False)"

definition ordinary_match :: "match \<Rightarrow> bool" where
  "ordinary_match m =
     (valid_form (recent_form_of (home_team_history m)) \<and>
      valid_form (recent_form_of (away_team_history m)) \<and>
      (case odds m of None \<Rightarrow> True
       | Some d \<Rightarrow> decimal_price d ''home_win'' \<and> decimal_price d ''draw''
                    \<and> decimal_price d ''away_win''))"

text \<open>The exact probabilities of the form-based model before rounding, as functions
  of the two form scores.\<close>

definition form_home :: "rat \<Rightarrow> rat \<Rightarrow> rat" where
  "form_home h a = ((h + 1 / 10) / (h + 1 / 10 + a) * (7 / 10) + 15 / 100) / (11 / 10)"

definition form_away :: "rat \<Rightarrow> rat \<Rightarrow> rat" where
  "form_away h a = (a / (h + 1 / 10 + a) * (7 / 10) + 15 / 100) / (11 / 10)"

section \<open>Properties\<close>

subsection \<open>Rounding to three decimals\<close>

lemma py_round3_cases:
  obtains k :: int where "py_round3 x = of_int k / 1000"
    and "of_int k \<le> x * 1000 + 1 / 2" and "x * 1000 \<le> of_int k + 1 / 2"
proof -
  define y where "y = x * 1000"
  define f where "f = \<lfloor>y\<rfloor>"
  define k where "k = (if y - of_int f < 1 / 2 then f
                 else if 1 / 2 < y - of_int f then f + 1
                 else if even f then f else f + 1)"
  have r: "py_round3 x = of_int k / 1000"
    by (simp add: py_round3_def Let_def k_def f_def y_def)
  have lo: "of_int f \<le> y" and hi: "y < of_int f + 1"
    unfolding f_def by linarith+
  have "of_int k \<le> y + 1 / 2" "y \<le> of_int k + 1 / 2"
    using lo hi unfolding k_def by auto
  then show ?thesis using r that unfolding y_def by blast
qed

lemma py_round3_error: "\<bar>py_round3 x - x\<bar> \<le> 1 / 2000"
proof -
  obtain k :: int where k: "py_round3 x = of_int k / 1000"
    "of_int k \<le> x * 1000 + 1 / 2" "x * 1000 \<le> of_int k + 1 / 2"
    by (rule py_round3_cases)
  have "py_round3 x - x \<le> 1 / 2000" "x - py_round3 x \<le> 1 / 2000"
    using k by simp_all
  then show ?thesis by linarith
qed

lemma py_round3_unit:
  assumes "0 \<le> x" "x \<le> 1"
  shows "0 \<le> py_round3 x \<and> py_round3 x \<le> 1"
proof -
  obtain k :: int where k: "py_round3 x = of_int k / 1000"
    "of_int k \<le> x * 1000 + 1 / 2" "x * 1000 \<le> of_int k + 1 / 2"
    by (rule py_round3_cases)
  have "(of_int k :: rat) > of_int (- 1)" "(of_int k :: rat) < of_int 1001"
    using k(2,3) assms by simp_all
  then have "- 1 < k" "k < 1001" by (simp_all only: of_int_less_iff)
  then have "0 \<le> k" "k \<le> 1000" by simp_all
  then have "(0 :: rat) \<le> of_int k" "(of_int k :: rat) \<le> 1000" by simp_all
  then show ?thesis using k(1) by simp
qed

lemma grid_near_one:
  fixes k n :: int
  assumes "\<bar>(of_int k :: rat) / 1000 - 1\<bar> \<le> (2 * of_int n + 1) / 2000"
  shows "\<bar>(of_int k :: rat) / 1000 - 1\<bar> \<le> of_int n / 1000"
proof -
  have "(of_int k :: rat) / 1000 - 1 \<le> (2 * of_int n + 1) / 2000"
       "1 - (of_int k :: rat) / 1000 \<le> (2 * of_int n + 1) / 2000"
    using assms by linarith+
  then have "(of_int (k - 1000) :: rat) < of_int (n + 1)" "(of_int (1000 - k) :: rat) < of_int (n + 1)"
    by simp_all
  then have "k - 1000 < n + 1" "1000 - k < n + 1" by (simp_all only: of_int_less_iff)
  then have "k - 1000 \<le> n" "1000 - k \<le> n" by simp_all
  then have "(of_int (k - 1000) :: rat) \<le> of_int n" "(of_int (1000 - k) :: rat) \<le> of_int n"
    by (simp_all only: of_int_le_iff)
  then have "(of_int k :: rat) / 1000 - 1 \<le> of_int n / 1000" "1 - (of_int k :: rat) / 1000 \<le> of_int n / 1000"
    by simp_all
  then show ?thesis by linarith
qed

lemma rounded_triple_sum:
  fixes n :: int
  assumes "\<bar>a + b + c - 1\<bar> \<le> of_int n / 1000"
  shows "\<bar>py_round3 a + py_round3 b + py_round3 c - 1\<bar> \<le> of_int (n + 1) / 1000"
proof -
  obtain ka :: int where ka: "py_round3 a = of_int ka / 1000" by (rule py_round3_cases)
  obtain kb :: int where kb: "py_round3 b = of_int kb / 1000" by (rule py_round3_cases)
  obtain kc :: int where kc: "py_round3 c = of_int kc / 1000" by (rule py_round3_cases)
  have grid: "py_round3 a + py_round3 b + py_round3 c = of_int (ka + kb + kc) / 1000"
    by (simp add: ka kb kc add_divide_distrib)
  have "(2 * of_int (n + 1) + 1) / 2000 = (of_int n :: rat) / 1000 + 3 / 2000"
    by simp
  then have "\<bar>py_round3 a + py_round3 b + py_round3 c - 1\<bar> \<le> (2 * of_int (n + 1) + 1) / 2000"
    using py_round3_error [of a] py_round3_error [of b] py_round3_error [of c] assms(1)
    by linarith
  then show ?thesis unfolding grid by (rule grid_near_one)
qed

subsection \<open>Form score\<close>

lemma weighted_sum_bounds:
  fixes a ws :: "rat list"
  shows "\<forall>x\<in>set a. 0 \<le> x \<and> x \<le> 1 \<Longrightarrow> \<forall>w\<in>set ws. 0 \<le> w \<Longrightarrow>
   0 \<le> sum_list (map2 (*) a ws) \<and> sum_list (map2 (*) a ws) \<le> sum_list (take (length a) ws)"
proof (induction a arbitrary: ws)
  case Nil
  then show ?case by simp
next
  case (Cons x a)
  show ?case
  proof (cases ws)
    case Nil
    then show ?thesis by simp
  next
    case (Cons w ws')
    from Cons.prems Cons have x: "0 \<le> x" "x \<le> 1" and w: "0 \<le> w" by auto
    from Cons.prems Cons have ih: "0 \<le> sum_list (map2 (*) a ws') \<and> sum_list (map2 (*) a ws') \<le> sum_list (take (length a) ws')"
      using Cons.IH [of ws'] by auto
    have "0 \<le> x * w" using x w by simp
    moreover have "x * w \<le> w" using x w by (simp add: mult_left_le_one_le)
    ultimately show ?thesis using ih Cons by simp
  qed
qed

lemma length_form_weights: "length form_weights = 5"
  by (simp add: form_weights_def)

lemma form_weights_nonneg: "\<forall>w\<in>set form_weights. 0 \<le> w"
  by (simp add: form_weights_def)

lemma form_weights_prefix_pos:
  "0 < n \<Longrightarrow> 0 < sum_list (take n form_weights)"
  by (cases n; simp add: form_weights_def take_Cons')

lemma form_score_long:
  "6 \<le> length xs \<Longrightarrow> calculate_form_score xs = Inl TypeError"
  by (auto simp: calculate_form_score_def np_average_def length_form_weights Let_def)

lemma form_score_short:
  assumes "xs \<noteq> []" "length xs \<le> 5"
  shows "calculate_form_score xs = Inr (sum_list (map2 (*) xs (take (length xs) form_weights)) / sum_list (take (length xs) form_weights))"
  using assms form_weights_prefix_pos [of "length xs"]
  by (auto simp: calculate_form_score_def np_average_def length_form_weights Let_def py_truediv_def)

lemma zip_take_length: "zip xs (take (length xs) ys) = zip xs ys"
proof (induction xs arbitrary: ys)
  case Nil
  then show ?case by simp
next
  case (Cons x xs)
  then show ?case by (cases ys) simp_all
qed

lemma form_score_unit:
  assumes "length xs \<le> 5" "\<forall>x\<in>set xs. 0 \<le> x \<and> x \<le> 1"
  shows "\<exists>s. calculate_form_score xs = Inr s \<and> 0 \<le> s \<and> s \<le> 1"
proof (cases "xs = []")
  case True
  then have "calculate_form_score xs = Inr (1 / 2)" by (simp add: calculate_form_score_def)
  then show ?thesis by (intro exI [of _ "1 / 2"]) simp
next
  case False
  let ?w = "take (length xs) form_weights"
  let ?n = "sum_list (map2 (*) xs ?w)"
  have pos: "0 < sum_list ?w" using False by (simp add: form_weights_prefix_pos)
  have "0 \<le> sum_list (map2 (*) xs form_weights) \<and> sum_list (map2 (*) xs form_weights) \<le> sum_list ?w"
    using weighted_sum_bounds [OF assms(2) form_weights_nonneg] .
  moreover have "map2 (*) xs ?w = map2 (*) xs form_weights"
    by (simp only: zip_take_length)
  ultimately have b: "0 \<le> ?n" "?n \<le> sum_list ?w" by simp_all
  have "0 \<le> ?n / sum_list ?w" "?n / sum_list ?w \<le> 1"
    using b pos by simp_all
  then show ?thesis using form_score_short [OF False assms(1)] by simp
qed

subsection \<open>Form-based model\<close>

lemma valid_form_unit: "valid_form xs \<Longrightarrow> \<forall>x\<in>set xs. 0 \<le> x \<and> x \<le> 1"
  by (auto simp: valid_form_def)

lemma normalise3_ok:
  "h + d + a \<noteq> 0 \<Longrightarrow> normalise3 h d a = Inr (h / (h + d + a), d / (h + d + a), a / (h + d + a))"
  by (simp add: normalise3_def Let_def)


lemma form_probabilities_core:
  assumes "hp + ap = 1"
  shows "normalise3 hp (max (1 / 10) (1 - hp - ap)) ap = Inr (hp / (11 / 10), 1 / 11, ap / (11 / 10))"
proof -
  have dp: "max (1 / 10) (1 - hp - ap) = 1 / 10" using assms by simp
  have tot: "hp + 1 / 10 + ap = 11 / 10" using assms by simp
  show ?thesis unfolding dp by (simp add: normalise3_def Let_def tot)
qed

lemma share_blend:
  fixes x y :: rat
  assumes "x + y = 1"
  shows "x * (7 / 10) + 15 / 100 + (y * (7 / 10) + 15 / 100) = 1"
proof -
  have "x * (7 / 10) + y * (7 / 10) = (x + y) * (7 / 10)" by (simp only: distrib_right)
  then show ?thesis using assms by simp
qed

lemma form_shares:
  fixes h a :: rat
  assumes "h + 1 / 10 + a \<noteq> 0"
  shows "((h + 1 / 10) / (h + 1 / 10 + a) * (7 / 10) + 15 / 100)
       + (a / (h + 1 / 10 + a) * (7 / 10) + 15 / 100) = 1"
proof -
  define t where "t = h + 1 / 10 + a"
  have "(h + 1 / 10) / t + a / t = (h + 1 / 10 + a) / t" by (simp add: add_divide_distrib)
  also have "\<dots> = 1" using assms by (simp add: t_def)
  finally have "(h + 1 / 10) / t + a / t = 1" .
  then have "((h + 1 / 10) / t * (7 / 10) + 15 / 100) + (a / t * (7 / 10) + 15 / 100) = 1"
    by (rule share_blend)
  then show ?thesis unfolding t_def .
qed

lemma form_based_value:
  assumes h: "calculate_form_score (recent_form_of (home_team_history m)) = Inr h"
    and a: "calculate_form_score (recent_form_of (away_team_history m)) = Inr a"
    and nn: "0 \<le> h" "0 \<le> a"
  shows "predict_match_form_based m =
     Inr \<lparr>home_prob = py_round3 (form_home h a),
          draw_prob = py_round3 (1 / 11),
          away_prob = py_round3 (form_away h a),
          confidence = py_round3 \<bar>h - a\<bar>\<rparr>"
proof -
  have t: "(h + 1 / 10 + a = 0) = False" using nn by simp
  then have t': "h + 1 / 10 + a \<noteq> 0" by simp
  show ?thesis
    unfolding predict_match_form_based_def h a
    by (simp only: sum.case Let_def t if_False form_probabilities_core [OF form_shares [OF t']]
          prod.case form_home_def form_away_def)
qed

subsection \<open>Claims about the form score\<close>

text \<open>
  Claim C6, as amended. The form score of the empty sequence is exactly 0.5. For every
  non-empty sequence of at most five results, each 0, 0.5 or 1, the form score is
  returned, it is the weighted average of the results under the prefix of the weights
  1.0, 0.8, 0.6, 0.4, 0.2 of the same length (the first weight on the first, most
  recent, result), and it lies between 0 and 1.
\<close>

theorem form_score_weighted_average:
  "calculate_form_score [] = Inr (1 / 2) \<and>
   (xs \<noteq> [] \<and> length xs \<le> 5 \<and> (\<forall>x\<in>set xs. x = 0 \<or> x = 1 / 2 \<or> x = 1) \<longrightarrow>
      (\<exists>s. calculate_form_score xs = Inr s \<and>
           s = sum_list (map2 (*) xs (take (length xs) [1, 8 / 10, 6 / 10, 4 / 10, 2 / 10]))
                 / sum_list (take (length xs) [1, 8 / 10, 6 / 10, 4 / 10, 2 / 10]) \<and>
           0 \<le> s \<and> s \<le> 1))"
proof (intro conjI impI)
  show "calculate_form_score [] = Inr (1 / 2)"
    by (simp add: calculate_form_score_def)
next
  assume a: "xs \<noteq> [] \<and> length xs \<le> 5 \<and> (\<forall>x\<in>set xs. x = 0 \<or> x = 1 / 2 \<or> x = 1)"
  then have u: "\<forall>x\<in>set xs. 0 \<le> x \<and> x \<le> 1" by auto
  from a have ne: "xs \<noteq> []" and le: "length xs \<le> 5" by simp_all
  obtain s where s: "calculate_form_score xs = Inr s" "0 \<le> s" "s \<le> 1"
    using form_score_unit [OF le u] by blast
  have "s = sum_list (map2 (*) xs (take (length xs) form_weights)) / sum_list (take (length xs) form_weights)"
    using form_score_short [OF ne le] s(1) by simp
  then show "\<exists>s. calculate_form_score xs = Inr s \<and>
           s = sum_list (map2 (*) xs (take (length xs) [1, 8 / 10, 6 / 10, 4 / 10, 2 / 10]))
                 / sum_list (take (length xs) [1, 8 / 10, 6 / 10, 4 / 10, 2 / 10]) \<and>
           0 \<le> s \<and> s \<le> 1"
    using s unfolding form_weights_def by blast
qed

text \<open>The theorem at the sample history of the data processor and at a three-game
  history.\<close>

theorem form_score_weighted_average_witness:
  "calculate_form_score [1, 1, 0, 1, 0] = Inr (11 / 15) \<and>
   calculate_form_score [1 / 2, 0, 1] = Inr (11 / 24)"
  using form_score_weighted_average [of "[1, 1, 0, 1, 0]"]
        form_score_weighted_average [of "[1 / 2, 0, 1]"]
  by auto

text \<open>
  Claim C6 as it was stated covers every non-empty sequence over 0, 0.5 and 1. For a
  sequence of six results the weights stop at five, the shapes differ and the
  average raises: no form score is returned.
\<close>

theorem form_score_six_games_counterexample:
  "[1, 1, 0, 1 / 2, 0, 1] \<noteq> [] \<and> set [1, 1, 0, 1 / 2, 0, 1 :: rat] \<subseteq> {0, 1 / 2, 1} \<and>
   calculate_form_score [1, 1, 0, 1 / 2, 0, 1] = Inl TypeError"
  by (simp add: calculate_form_score_def np_average_def form_weights_def)

text \<open>
  Claim C9. The form score is returned for every sequence of at most five results,
  and for every sequence of six or more results the weighted average raises
  \<^verbatim>\<open>TypeError\<close>, so no form score is returned.
\<close>

theorem form_score_partial:
  "(length xs \<le> 5 \<longrightarrow> (\<exists>s. calculate_form_score xs = Inr s)) \<and>
   (6 \<le> length xs \<longrightarrow> calculate_form_score xs = Inl TypeError)"
proof (intro conjI impI)
  assume le: "length xs \<le> 5"
  show "\<exists>s. calculate_form_score xs = Inr s"
  proof (cases "xs = []")
    case True
    then have "calculate_form_score xs = Inr (1 / 2)" by (simp add: calculate_form_score_def)
    then show ?thesis by blast
  next
    case False
    then show ?thesis using form_score_short [OF False le] by blast
  qed
next
  assume "6 \<le> length xs"
  then show "calculate_form_score xs = Inl TypeError" by (rule form_score_long)
qed

text \<open>The theorem at sequences of six, seven and five results.\<close>

theorem form_score_partial_witness:
  "calculate_form_score [1, 1, 1, 1, 1, 1] = Inl TypeError \<and>
   calculate_form_score [0, 0, 0, 0, 0, 0, 0] = Inl TypeError \<and>
   (\<exists>s. calculate_form_score [1, 1, 1, 1, 1] = Inr s)"
  using form_score_partial [of "[1, 1, 1, 1, 1, 1]"] form_score_partial [of "[0, 0, 0, 0, 0, 0, 0]"]
        form_score_partial [of "[1, 1, 1, 1, 1]"]
  by simp

subsection \<open>Probability triples\<close>

lemma rounded_distribution:
  assumes "0 \<le> x" "0 \<le> y" "0 \<le> z" "x + y + z = 1"
  shows "probabilities_within (1 / 1000)
           \<lparr>home_prob = py_round3 x, draw_prob = py_round3 y, away_prob = py_round3 z,
            confidence = c\<rparr>"
proof -
  have le: "x \<le> 1" "y \<le> 1" "z \<le> 1" using assms by linarith+
  have "\<bar>x + y + z - 1\<bar> \<le> of_int 0 / 1000" using assms(4) by simp
  then have "\<bar>py_round3 x + py_round3 y + py_round3 z - 1\<bar> \<le> of_int (0 + 1) / 1000"
    by (rule rounded_triple_sum)
  then show ?thesis
    using py_round3_unit [OF assms(1) le(1)] py_round3_unit [OF assms(2) le(2)]
      py_round3_unit [OF assms(3) le(3)]
    by (simp add: probabilities_within_def)
qed

lemma form_exact_distribution:
  fixes h a :: rat
  assumes "0 \<le> h" "0 \<le> a"
  shows "0 \<le> form_home h a" "0 \<le> form_away h a" "form_home h a + 1 / 11 + form_away h a = 1"
proof -
  have t: "h + 1 / 10 + a \<noteq> 0" "0 < h + 1 / 10 + a" using assms by simp_all
  show "0 \<le> form_home h a" using assms t(2) by (simp add: form_home_def)
  show "0 \<le> form_away h a" using assms t(2) by (simp add: form_away_def)
  have "form_home h a + form_away h a
      = (((h + 1 / 10) / (h + 1 / 10 + a) * (7 / 10) + 15 / 100)
          + (a / (h + 1 / 10 + a) * (7 / 10) + 15 / 100)) / (11 / 10)"
    unfolding form_home_def form_away_def by (simp only: add_divide_distrib)
  also have "\<dots> = 1 / (11 / 10)" by (simp only: form_shares [OF t(1)])
  finally have "form_home h a + form_away h a = 10 / 11" by simp
  then show "form_home h a + 1 / 11 + form_away h a = 1" by simp
qed

lemma form_based_well_formed:
  assumes "valid_form (recent_form_of (home_team_history m))"
    and "valid_form (recent_form_of (away_team_history m))"
  shows "\<exists>p. predict_match_form_based m = Inr p \<and> probabilities_within (1 / 1000) p"
proof -
  obtain h where h: "calculate_form_score (recent_form_of (home_team_history m)) = Inr h" "0 \<le> h"
    using form_score_unit [of "recent_form_of (home_team_history m)"] assms(1) valid_form_unit
    by (auto simp: valid_form_def)
  obtain a where a: "calculate_form_score (recent_form_of (away_team_history m)) = Inr a" "0 \<le> a"
    using form_score_unit [of "recent_form_of (away_team_history m)"] assms(2) valid_form_unit
    by (auto simp: valid_form_def)
  have d: "(0::rat) \<le> 1 / 11" by simp
  show ?thesis
    using form_based_value [OF h(1) a(1) h(2) a(2)]
      rounded_distribution [OF form_exact_distribution(1) [OF h(2) a(2)] d
        form_exact_distribution(2) [OF h(2) a(2)] form_exact_distribution(3) [OF h(2) a(2)]]
    by simp
qed

subsection \<open>Odds-based model\<close>

lemma positive_price_get:
  assumes "positive_price d k" "0 < dflt"
  shows "\<exists>p. dict_get d k (Num dflt) = Num p \<and> 0 < p"
  using assms by (auto simp: positive_price_def dict_get_def split: option.splits pyval.splits)

lemma reciprocal_distribution:
  fixes ph pd pa :: rat
  assumes "0 < ph" "0 < pd" "0 < pa"
  defines "t \<equiv> 1 / ph + 1 / pd + 1 / pa"
  shows "0 < t" "0 \<le> 1 / ph / t" "0 \<le> 1 / pd / t" "0 \<le> 1 / pa / t"
    "1 / ph / t + 1 / pd / t + 1 / pa / t = 1"
proof -
  show t: "0 < t" using assms(1-3) unfolding t_def by (simp add: add_pos_pos)
  show "0 \<le> 1 / ph / t" "0 \<le> 1 / pd / t" "0 \<le> 1 / pa / t" using assms(1-3) t by simp_all
  have "1 / ph / t + 1 / pd / t + 1 / pa / t = (1 / ph + 1 / pd + 1 / pa) / t"
    by (simp only: add_divide_distrib)
  also have "\<dots> = 1" using t unfolding t_def by simp
  finally show "1 / ph / t + 1 / pd / t + 1 / pa / t = 1" .
qed

lemma odds_based_value:
  assumes "odds m = Some d" "d \<noteq> []"
    and "dict_get d ''home_win'' (Num 2) = Num ph"
    and "dict_get d ''draw'' (Num 3) = Num pd"
    and "dict_get d ''away_win'' (Num 2) = Num pa"
    and "0 < ph" "0 < pd" "0 < pa"
  shows "predict_match_odds_based m =
     Inr \<lparr>home_prob = py_round3 (1 / ph / (1 / ph + 1 / pd + 1 / pa)),
          draw_prob = py_round3 (1 / pd / (1 / ph + 1 / pd + 1 / pa)),
          away_prob = py_round3 (1 / pa / (1 / ph + 1 / pd + 1 / pa)),
          confidence = py_round3 (1 - min (1 / ph / (1 / ph + 1 / pd + 1 / pa))
                          (min (1 / pd / (1 / ph + 1 / pd + 1 / pa))
                               (1 / pa / (1 / ph + 1 / pd + 1 / pa))))\<rparr>"
proof -
  have t: "1 / ph + 1 / pd + 1 / pa \<noteq> 0"
    using reciprocal_distribution(1) [OF assms(6-8)] by simp
  have nz: "ph \<noteq> 0" "pd \<noteq> 0" "pa \<noteq> 0" using assms(6-8) by simp_all
  show ?thesis
    unfolding predict_match_odds_based_def
    by (simp add: Let_def assms(1-5) py_truediv_def nz normalise3_def t del: min.absorb1 min.absorb2 min.absorb3 min.absorb4)
qed

lemma odds_based_well_formed:
  assumes "well_formed_match m"
  shows "\<exists>p. predict_match_odds_based m = Inr p \<and> probabilities_within (1 / 1000) p"
proof (cases "odds m = None \<or> odds m = Some []")
  case True
  then have "predict_match_odds_based m = predict_match_form_based m"
    by (auto simp: predict_match_odds_based_def)
  then show ?thesis using form_based_well_formed [of m] assms by (simp add: well_formed_match_def)
next
  case False
  then obtain d where d: "odds m = Some d" "d \<noteq> []" by auto
  with assms have pp: "positive_price d ''home_win''" "positive_price d ''draw''"
    "positive_price d ''away_win''"
    by (simp_all add: well_formed_match_def)
  obtain ph where ph: "dict_get d ''home_win'' (Num 2) = Num ph" "0 < ph"
    using positive_price_get [OF pp(1), of 2] by auto
  obtain pd where pd: "dict_get d ''draw'' (Num 3) = Num pd" "0 < pd"
    using positive_price_get [OF pp(2), of 3] by auto
  obtain pa where pa: "dict_get d ''away_win'' (Num 2) = Num pa" "0 < pa"
    using positive_price_get [OF pp(3), of 2] by auto
  note r = reciprocal_distribution [OF ph(2) pd(2) pa(2)]
  show ?thesis
    using odds_based_value [OF d ph(1) pd(1) pa(1) ph(2) pd(2) pa(2)]
      rounded_distribution [OF r(2) r(3) r(4) r(5)]
    by simp
qed

subsection \<open>Hybrid model\<close>

lemma hybrid_value:
  assumes "predict_match_form_based m = Inr f" "predict_match_odds_based m = Inr q"
  shows "predict_match_hybrid m =
     Inr \<lparr>home_prob = py_round3 (6 / 10 * home_prob q + 4 / 10 * home_prob f),
          draw_prob = py_round3 (6 / 10 * draw_prob q + 4 / 10 * draw_prob f),
          away_prob = py_round3 (6 / 10 * away_prob q + 4 / 10 * away_prob f),
          confidence = py_round3 ((confidence q + confidence f) / 2)\<rparr>"
  using assms by (simp add: predict_match_hybrid_def Let_def)

lemma blend_unit:
  fixes x y :: rat
  assumes "0 \<le> x" "x \<le> 1" "0 \<le> y" "y \<le> 1"
  shows "0 \<le> 6 / 10 * x + 4 / 10 * y" "6 / 10 * x + 4 / 10 * y \<le> 1"
  using assms by linarith+

lemma round_blend_unit:
  fixes x y :: rat
  assumes "0 \<le> x" "x \<le> 1" "0 \<le> y" "y \<le> 1"
  shows "0 \<le> py_round3 (6 / 10 * x + 4 / 10 * y) \<and> py_round3 (6 / 10 * x + 4 / 10 * y) \<le> 1"
  using blend_unit [OF assms] by (rule py_round3_unit)

lemma hybrid_well_formed:
  assumes f: "predict_match_form_based m = Inr f" "probabilities_within (1 / 1000) f"
    and q: "predict_match_odds_based m = Inr q" "probabilities_within (1 / 1000) q"
  shows "\<exists>p. predict_match_hybrid m = Inr p \<and> probabilities_within (2 / 1000) p"
proof -
  let ?x = "6 / 10 * home_prob q + 4 / 10 * home_prob f"
  let ?y = "6 / 10 * draw_prob q + 4 / 10 * draw_prob f"
  let ?z = "6 / 10 * away_prob q + 4 / 10 * away_prob f"
  from f(2) q(2) have b:
    "0 \<le> home_prob f" "home_prob f \<le> 1" "0 \<le> draw_prob f" "draw_prob f \<le> 1"
    "0 \<le> away_prob f" "away_prob f \<le> 1"
    "0 \<le> home_prob q" "home_prob q \<le> 1" "0 \<le> draw_prob q" "draw_prob q \<le> 1"
    "0 \<le> away_prob q" "away_prob q \<le> 1"
    and sf: "\<bar>home_prob f + draw_prob f + away_prob f - 1\<bar> \<le> 1 / 1000"
    and sq: "\<bar>home_prob q + draw_prob q + away_prob q - 1\<bar> \<le> 1 / 1000"
    by (simp_all add: probabilities_within_def)
  have "\<bar>?x + ?y + ?z - 1\<bar> \<le> 1 / 1000" using sf sq by linarith
  then have "\<bar>?x + ?y + ?z - 1\<bar> \<le> of_int 1 / 1000" by simp
  then have s: "\<bar>py_round3 ?x + py_round3 ?y + py_round3 ?z - 1\<bar> \<le> of_int (1 + 1) / 1000"
    by (rule rounded_triple_sum)
  have u: "0 \<le> py_round3 ?x \<and> py_round3 ?x \<le> 1" "0 \<le> py_round3 ?y \<and> py_round3 ?y \<le> 1"
    "0 \<le> py_round3 ?z \<and> py_round3 ?z \<le> 1"
    using b by (simp_all only: round_blend_unit)
  show ?thesis
    using hybrid_value [OF f(1) q(1)] s u by (simp add: probabilities_within_def)
qed

subsection \<open>Claims about the outcome models\<close>

lemma decimal_price_positive: "decimal_price d k \<Longrightarrow> positive_price d k"
  by (auto simp: decimal_price_def positive_price_def split: option.splits pyval.splits)

lemma ordinary_match_well_formed: "ordinary_match m \<Longrightarrow> well_formed_match m"
  by (auto simp: ordinary_match_def well_formed_match_def decimal_price_positive
      split: option.splits)

lemma probabilities_within_mono:
  "probabilities_within tol p \<Longrightarrow> tol \<le> tol' \<Longrightarrow> probabilities_within tol' p"
  by (simp add: probabilities_within_def)

text \<open>
  The bound on the sum does not depend on which neighbour a rounding returns: three
  multiples of \<open>1/1000\<close>, each within half a step and the tolerance of a value, sum to
  1 within one step when the values sum to 1 within the tolerance.
\<close>

lemma neighbouring_multiples_sum:
  fixes ka kb kc :: int and a b c :: rat
  assumes "\<bar>of_int ka / 1000 - a\<bar> \<le> 1 / 2000 + 1 / 1000000"
    and "\<bar>of_int kb / 1000 - b\<bar> \<le> 1 / 2000 + 1 / 1000000"
    and "\<bar>of_int kc / 1000 - c\<bar> \<le> 1 / 2000 + 1 / 1000000"
    and "\<bar>a + b + c - 1\<bar> \<le> 1 / 1000000"
  shows "\<bar>of_int ka / 1000 + of_int kb / 1000 + of_int kc / 1000 - (1 :: rat)\<bar> \<le> 1 / 1000"
proof -
  define k where "k = ka + kb + kc"
  have s: "of_int ka / 1000 + of_int kb / 1000 + of_int kc / 1000 = (of_int k :: rat) / 1000"
    by (simp add: k_def add_divide_distrib)
  have "\<bar>(of_int k :: rat) / 1000 - 1\<bar> \<le> 3 / 2000 + 4 / 1000000"
    using assms unfolding s [symmetric] by linarith
  then have "(of_int k :: rat) / 1000 - 1 < 2 / 1000" "1 - (of_int k :: rat) / 1000 < 2 / 1000"
    by linarith+
  then have "(of_int (k - 1000) :: rat) < of_int 2" "(of_int (1000 - k) :: rat) < of_int 2"
    by simp_all
  then have "k - 1000 < 2" "1000 - k < 2" by (simp_all only: of_int_less_iff)
  then have "k - 1000 \<le> 1" "1000 - k \<le> 1" by simp_all
  then have "(of_int (k - 1000) :: rat) \<le> of_int 1" "(of_int (1000 - k) :: rat) \<le> of_int 1"
    by (simp_all only: of_int_le_iff)
  then have "(of_int k :: rat) / 1000 - 1 \<le> 1 / 1000" "1 - (of_int k :: rat) / 1000 \<le> 1 / 1000"
    by simp_all
  then show ?thesis unfolding s by linarith
qed

text \<open>
  Claim C1, as amended. For every ordinary match (both recent-form sequences of at
  most five results, each 0, 0.5 or 1, and every price present a number between 1 and
  1000000) each of the three outcome models returns a triple whose components, as
  returned after rounding to three decimals, lie between 0 and 1; the sum of the
  returned triple equals 1 within 0.001 for the form-based and the odds-based model
  and within 0.002 for the hybrid model, each up to the tolerance 0.000001 of double
  arithmetic. (On the rationals the bounds 0.001 and 0.002 hold without the
  tolerance.)
\<close>

theorem outcome_models_distribution:
  assumes "ordinary_match m"
  shows "(\<exists>p. predict_match_form_based m = Inr p \<and>
              probabilities_within (1 / 1000 + float_tolerance) p) \<and>
         (\<exists>p. predict_match_odds_based m = Inr p \<and>
              probabilities_within (1 / 1000 + float_tolerance) p) \<and>
         (\<exists>p. predict_match_hybrid m = Inr p \<and>
              probabilities_within (2 / 1000 + float_tolerance) p)"
proof -
  have wf: "well_formed_match m" using assms by (rule ordinary_match_well_formed)
  have t1: "(1 :: rat) / 1000 \<le> 1 / 1000 + float_tolerance"
    and t2: "(2 :: rat) / 1000 \<le> 2 / 1000 + float_tolerance"
    by (simp_all add: float_tolerance_def)
  obtain f where f: "predict_match_form_based m = Inr f" "probabilities_within (1 / 1000) f"
    using form_based_well_formed [of m] wf by (auto simp: well_formed_match_def)
  obtain q where q: "predict_match_odds_based m = Inr q" "probabilities_within (1 / 1000) q"
    using odds_based_well_formed [OF wf] by auto
  obtain h where h: "predict_match_hybrid m = Inr h" "probabilities_within (2 / 1000) h"
    using hybrid_well_formed [OF f q] by auto
  show ?thesis
    using f(1) q(1) h(1) probabilities_within_mono [OF f(2) t1]
      probabilities_within_mono [OF q(2) t1] probabilities_within_mono [OF h(2) t2]
    by blast
qed

text \<open>The theorem at a match with both histories and a full odds block; its hybrid
  triple is 0.468, 0.2, 0.333.\<close>

theorem outcome_models_distribution_witness:
  "ordinary_match
     \<lparr>home_team_history = Some \<lparr>recent_form = Some [1, 1, 0, 1, 0]\<rparr>,
      away_team_history = Some \<lparr>recent_form = Some [0, 1, 1]\<rparr>,
      odds = Some [(''home_win'', Num (21 / 10)), (''draw'', Num (34 / 10)),
                   (''away_win'', Num (32 / 10)), (''source'', Str ''sample_bookmaker'')]\<rparr>
   \<and> (\<exists>p. predict_match_hybrid
     \<lparr>home_team_history = Some \<lparr>recent_form = Some [1, 1, 0, 1, 0]\<rparr>,
      away_team_history = Some \<lparr>recent_form = Some [0, 1, 1]\<rparr>,
      odds = Some [(''home_win'', Num (21 / 10)), (''draw'', Num (34 / 10)),
                   (''away_win'', Num (32 / 10)), (''source'', Str ''sample_bookmaker'')]\<rparr> = Inr p
       \<and> probabilities_within (2 / 1000 + float_tolerance) p)"
proof -
  let ?m = "\<lparr>home_team_history = Some \<lparr>recent_form = Some [1, 1, 0, 1, 0]\<rparr>,
      away_team_history = Some \<lparr>recent_form = Some [0, 1, 1]\<rparr>,
      odds = Some [(''home_win'', Num (21 / 10)), (''draw'', Num (34 / 10)),
                   (''away_win'', Num (32 / 10)), (''source'', Str ''sample_bookmaker'')]\<rparr>"
  have wf: "ordinary_match ?m"
    by (simp add: ordinary_match_def valid_form_def recent_form_of_def decimal_price_def)
  show ?thesis using wf outcome_models_distribution [OF wf] by blast
qed

text \<open>
  Claim C1 as it was stated asks for a sum within 0.000001 of 1 after rounding. For
  the prices 3.0, 3.0, 3.0 the odds-based model returns 0.333 three times: the sum is
  0.999.
\<close>

theorem rounded_thirds_counterexample:
  "predict_match_odds_based
     \<lparr>home_team_history = None, away_team_history = None,
      odds = Some [(''home_win'', Num 3), (''draw'', Num 3), (''away_win'', Num 3)]\<rparr>
   = Inr \<lparr>home_prob = 333 / 1000, draw_prob = 333 / 1000, away_prob = 333 / 1000,
          confidence = 667 / 1000\<rparr>
   \<and> \<not> \<bar>333 / 1000 + 333 / 1000 + 333 / 1000 - (1 :: rat)\<bar> \<le> 1 / 1000000"
  by code_simp

text \<open>
  Claim C3. Whenever the form-based and the odds-based model return for a match, the
  hybrid model returns, componentwise, 0.6 times the returned odds-based probability
  plus 0.4 times the returned form-based probability, rounded to three decimals, and
  as confidence the average of the two returned confidences, rounded to three
  decimals.
\<close>

theorem hybrid_blend:
  assumes "predict_match_form_based m = Inr form_prediction"
    and "predict_match_odds_based m = Inr odds_prediction"
  shows "predict_match_hybrid m =
     Inr \<lparr>home_prob = py_round3 (6 / 10 * home_prob odds_prediction + 4 / 10 * home_prob form_prediction),
          draw_prob = py_round3 (6 / 10 * draw_prob odds_prediction + 4 / 10 * draw_prob form_prediction),
          away_prob = py_round3 (6 / 10 * away_prob odds_prediction + 4 / 10 * away_prob form_prediction),
          confidence = py_round3 ((confidence odds_prediction + confidence form_prediction) / 2)\<rparr>"
  using assms by (simp add: predict_match_hybrid_def Let_def)

text \<open>The theorem at a match whose form-based prediction is 0.511, 0.091, 0.398
  (confidence 0.15) and whose odds-based prediction is 0.44, 0.272, 0.289 (confidence
  0.728).\<close>

theorem hybrid_blend_witness:
  "predict_match_hybrid
     \<lparr>home_team_history = Some \<lparr>recent_form = Some [1, 1, 0, 1, 0]\<rparr>,
      away_team_history = Some \<lparr>recent_form = Some [0, 1, 1]\<rparr>,
      odds = Some [(''home_win'', Num (21 / 10)), (''draw'', Num (34 / 10)),
                   (''away_win'', Num (32 / 10)), (''source'', Str ''sample_bookmaker'')]\<rparr>
   = Inr \<lparr>home_prob = 468 / 1000, draw_prob = 200 / 1000, away_prob = 333 / 1000,
          confidence = 439 / 1000\<rparr>"
proof -
  let ?m = "\<lparr>home_team_history = Some \<lparr>recent_form = Some [1, 1, 0, 1, 0]\<rparr>,
      away_team_history = Some \<lparr>recent_form = Some [0, 1, 1]\<rparr>,
      odds = Some [(''home_win'', Num (21 / 10)), (''draw'', Num (34 / 10)),
                   (''away_win'', Num (32 / 10)), (''source'', Str ''sample_bookmaker'')]\<rparr>"
  let ?f = "\<lparr>home_prob = 511 / 1000, draw_prob = 91 / 1000, away_prob = 398 / 1000,
             confidence = 150 / 1000\<rparr>"
  let ?o = "\<lparr>home_prob = 440 / 1000, draw_prob = 272 / 1000, away_prob = 289 / 1000,
             confidence = 728 / 1000\<rparr>"
  have f: "predict_match_form_based ?m = Inr ?f" by code_simp
  have o: "predict_match_odds_based ?m = Inr ?o" by code_simp
  have r: "py_round3 (6 / 10 * (440 / 1000) + 4 / 10 * (511 / 1000)) = 468 / 1000"
    "py_round3 (6 / 10 * (272 / 1000) + 4 / 10 * (91 / 1000)) = 200 / 1000"
    "py_round3 (6 / 10 * (289 / 1000) + 4 / 10 * (398 / 1000)) = 333 / 1000"
    "py_round3 ((728 / 1000 + 150 / 1000) / 2) = 439 / 1000"
    by code_simp+
  show ?thesis using hybrid_blend [OF f o] by (simp only: prediction.simps r)
qed

text \<open>
  Claim C10, as amended. When the odds block of a match is present and not empty, the
  odds-based model does not fall back to the form-based model: each price missing
  from the block is replaced by its default (2.0 for the home win, 3.0 for the draw,
  2.0 for the away win), and with the three prices so obtained, each a number between
  1 and 1000000, the model returns their reciprocals divided by the sum of the
  reciprocals, each rounded to three decimals, and as confidence 1 minus the smallest
  of the three quotients, rounded to three decimals. The histories of the match play
  no part: the result is that of any match whose odds block lists these three prices.
\<close>

theorem odds_defaults:
  assumes "odds m = Some d" and "d \<noteq> []"
    and "(case map_of d ''home_win'' of None \<Rightarrow> Num 2 | Some v \<Rightarrow> v) = Num home_price"
    and "(case map_of d ''draw'' of None \<Rightarrow> Num 3 | Some v \<Rightarrow> v) = Num draw_price"
    and "(case map_of d ''away_win'' of None \<Rightarrow> Num 2 | Some v \<Rightarrow> v) = Num away_price"
    and "1 \<le> home_price \<and> home_price \<le> 1000000"
    and "1 \<le> draw_price \<and> draw_price \<le> 1000000"
    and "1 \<le> away_price \<and> away_price \<le> 1000000"
  shows "predict_match_odds_based m =
     Inr \<lparr>home_prob = py_round3 (1 / home_price / (1 / home_price + 1 / draw_price + 1 / away_price)),
          draw_prob = py_round3 (1 / draw_price / (1 / home_price + 1 / draw_price + 1 / away_price)),
          away_prob = py_round3 (1 / away_price / (1 / home_price + 1 / draw_price + 1 / away_price)),
          confidence =
            py_round3 (1 - min (1 / home_price / (1 / home_price + 1 / draw_price + 1 / away_price))
                          (min (1 / draw_price / (1 / home_price + 1 / draw_price + 1 / away_price))
                               (1 / away_price / (1 / home_price + 1 / draw_price + 1 / away_price))))\<rparr>
   \<and> predict_match_odds_based m =
     predict_match_odds_based
       \<lparr>home_team_history = any_home, away_team_history = any_away,
        odds = Some [(''home_win'', Num home_price), (''draw'', Num draw_price),
                     (''away_win'', Num away_price)]\<rparr>"
proof -
  have g: "dict_get d ''home_win'' (Num 2) = Num home_price"
    "dict_get d ''draw'' (Num 3) = Num draw_price"
    "dict_get d ''away_win'' (Num 2) = Num away_price"
    using assms(3-5) by (simp_all add: dict_get_def)
  have p: "0 < home_price" "0 < draw_price" "0 < away_price" using assms(6-8) by simp_all
  let ?m' = "\<lparr>home_team_history = any_home, away_team_history = any_away,
        odds = Some [(''home_win'', Num home_price), (''draw'', Num draw_price),
                     (''away_win'', Num away_price)]\<rparr>"
  have g': "dict_get [(''home_win'', Num home_price), (''draw'', Num draw_price),
                     (''away_win'', Num away_price)] ''home_win'' (Num 2) = Num home_price"
    "dict_get [(''home_win'', Num home_price), (''draw'', Num draw_price),
                     (''away_win'', Num away_price)] ''draw'' (Num 3) = Num draw_price"
    "dict_get [(''home_win'', Num home_price), (''draw'', Num draw_price),
                     (''away_win'', Num away_price)] ''away_win'' (Num 2) = Num away_price"
    by (simp_all add: dict_get_def)
  have o': "odds ?m' = Some [(''home_win'', Num home_price), (''draw'', Num draw_price),
                     (''away_win'', Num away_price)]"
    "[(''home_win'', Num home_price), (''draw'', Num draw_price),
                     (''away_win'', Num away_price)] \<noteq> []"
    by simp_all
  note v = odds_based_value [OF assms(1,2) g p]
  note v' = odds_based_value [OF o' g' p]
  show ?thesis using v v' by (simp only: simp_thms)
qed

text \<open>The theorem at an odds block holding only the source label (all three
  defaults: 0.375, 0.25, 0.375), and at one that also holds the draw price 4.0.\<close>

theorem odds_defaults_witness:
  "predict_match_odds_based
     \<lparr>home_team_history = Some \<lparr>recent_form = Some [1, 1, 1]\<rparr>, away_team_history = None,
      odds = Some [(''source'', Str ''sample_bookmaker'')]\<rparr>
   = Inr \<lparr>home_prob = 375 / 1000, draw_prob = 250 / 1000, away_prob = 375 / 1000,
          confidence = 750 / 1000\<rparr>
   \<and> predict_match_odds_based
     \<lparr>home_team_history = Some \<lparr>recent_form = Some [1, 1, 1]\<rparr>, away_team_history = None,
      odds = Some [(''draw'', Num 4), (''source'', Str ''sample_bookmaker'')]\<rparr>
   = Inr \<lparr>home_prob = 400 / 1000, draw_prob = 200 / 1000, away_prob = 400 / 1000,
          confidence = 800 / 1000\<rparr>"
proof -
  have r: "py_round3 (1 / 2 / (1 / 2 + 1 / 3 + 1 / 2)) = 375 / 1000"
    "py_round3 (1 / 3 / (1 / 2 + 1 / 3 + 1 / 2)) = 250 / 1000"
    "py_round3 (1 - min (1 / 2 / (1 / 2 + 1 / 3 + 1 / 2))
        (min (1 / 3 / (1 / 2 + 1 / 3 + 1 / 2)) (1 / 2 / (1 / 2 + 1 / 3 + 1 / 2)))) = 750 / 1000"
    "py_round3 (1 / 2 / (1 / 2 + 1 / 4 + 1 / 2)) = 400 / 1000"
    "py_round3 (1 / 4 / (1 / 2 + 1 / 4 + 1 / 2)) = 200 / 1000"
    "py_round3 (1 - min (1 / 2 / (1 / 2 + 1 / 4 + 1 / 2))
        (min (1 / 4 / (1 / 2 + 1 / 4 + 1 / 2)) (1 / 2 / (1 / 2 + 1 / 4 + 1 / 2)))) = 800 / 1000"
    by code_simp+
  have a: "predict_match_odds_based
     \<lparr>home_team_history = Some \<lparr>recent_form = Some [1, 1, 1]\<rparr>, away_team_history = None,
      odds = Some [(''source'', Str ''sample_bookmaker'')]\<rparr>
   = Inr \<lparr>home_prob = 375 / 1000, draw_prob = 250 / 1000, away_prob = 375 / 1000,
          confidence = 750 / 1000\<rparr>"
    using odds_defaults [of "\<lparr>home_team_history = Some \<lparr>recent_form = Some [1, 1, 1]\<rparr>,
          away_team_history = None, odds = Some [(''source'', Str ''sample_bookmaker'')]\<rparr>"
        "[(''source'', Str ''sample_bookmaker'')]" 2 3 2]
    unfolding r by simp
  have b: "predict_match_odds_based
     \<lparr>home_team_history = Some \<lparr>recent_form = Some [1, 1, 1]\<rparr>, away_team_history = None,
      odds = Some [(''draw'', Num 4), (''source'', Str ''sample_bookmaker'')]\<rparr>
   = Inr \<lparr>home_prob = 400 / 1000, draw_prob = 200 / 1000, away_prob = 400 / 1000,
          confidence = 800 / 1000\<rparr>"
    using odds_defaults [of "\<lparr>home_team_history = Some \<lparr>recent_form = Some [1, 1, 1]\<rparr>,
          away_team_history = None,
          odds = Some [(''draw'', Num 4), (''source'', Str ''sample_bookmaker'')]\<rparr>"
        "[(''draw'', Num 4), (''source'', Str ''sample_bookmaker'')]" 2 4 2]
    unfolding r by simp
  show ?thesis using a b by (rule conjI)
qed

text \<open>
  Claim C10 as it was stated covers every odds block that is present. An odds block
  that is present and empty lacks all three prices, and for it the model returns the
  form-based prediction, not the prediction from the default prices.
\<close>

theorem empty_odds_block_counterexample:
  "predict_match_odds_based
     \<lparr>home_team_history = Some \<lparr>recent_form = Some [1, 1, 1]\<rparr>, away_team_history = None,
      odds = Some []\<rparr>
   = Inr \<lparr>home_prob = 574 / 1000, draw_prob = 91 / 1000, away_prob = 335 / 1000,
          confidence = 500 / 1000\<rparr>
   \<and> predict_match_form_based
     \<lparr>home_team_history = Some \<lparr>recent_form = Some [1, 1, 1]\<rparr>, away_team_history = None,
      odds = Some []\<rparr>
   = Inr \<lparr>home_prob = 574 / 1000, draw_prob = 91 / 1000, away_prob = 335 / 1000,
          confidence = 500 / 1000\<rparr>
   \<and> predict_match_odds_based
     \<lparr>home_team_history = Some \<lparr>recent_form = Some [1, 1, 1]\<rparr>, away_team_history = None,
      odds = Some [(''home_win'', Num 2), (''draw'', Num 3), (''away_win'', Num 2)]\<rparr>
   = Inr \<lparr>home_prob = 375 / 1000, draw_prob = 250 / 1000, away_prob = 375 / 1000,
          confidence = 750 / 1000\<rparr>"
  by code_simp

subsection \<open>Claims about outcome selection and the combinations\<close>

text \<open>
  Claim C4. Outcome selection returns a symbol whose probability is the maximum of
  the three; it returns the draw symbol only when the home probability is strictly
  smaller, and the away symbol only when the home and the draw probability are both
  strictly smaller, so exact ties go to home first, then draw, then away. For the
  triple (0.4, 0.4, 0.2) it returns the home symbol.
\<close>

theorem select_outcome_first_maximum:
  "(select_outcome p = ''1'' \<and> home_prob p = max (home_prob p) (max (draw_prob p) (away_prob p))
    \<or> select_outcome p = ''X'' \<and> draw_prob p = max (home_prob p) (max (draw_prob p) (away_prob p))
        \<and> home_prob p < draw_prob p
    \<or> select_outcome p = ''2'' \<and> away_prob p = max (home_prob p) (max (draw_prob p) (away_prob p))
        \<and> home_prob p < away_prob p \<and> draw_prob p < away_prob p)
   \<and> select_outcome \<lparr>home_prob = 4 / 10, draw_prob = 4 / 10, away_prob = 2 / 10, confidence = c\<rparr> = ''1''"
  by (auto simp: select_outcome_def Let_def max_def)

text \<open>The theorem at three triples, two of them with an exact tie.\<close>

theorem select_outcome_first_maximum_witness:
  "select_outcome \<lparr>home_prob = 2 / 10, draw_prob = 5 / 10, away_prob = 3 / 10, confidence = 0\<rparr> = ''X''
   \<and> select_outcome \<lparr>home_prob = 3 / 10, draw_prob = 3 / 10, away_prob = 4 / 10, confidence = 0\<rparr> = ''2''
   \<and> select_outcome \<lparr>home_prob = 2 / 10, draw_prob = 4 / 10, away_prob = 4 / 10, confidence = 0\<rparr> = ''X''"
  using select_outcome_first_maximum [of "\<lparr>home_prob = 2 / 10, draw_prob = 5 / 10, away_prob = 3 / 10, confidence = 0\<rparr>"]
    select_outcome_first_maximum [of "\<lparr>home_prob = 3 / 10, draw_prob = 3 / 10, away_prob = 4 / 10, confidence = 0\<rparr>"]
    select_outcome_first_maximum [of "\<lparr>home_prob = 2 / 10, draw_prob = 4 / 10, away_prob = 4 / 10, confidence = 0\<rparr>"]
  by simp







lemma conservative_combo_nth:
  "conservative_combo ms = Inr c \<Longrightarrow> i < length ms \<Longrightarrow>
   \<exists>p. predict_match_hybrid (ms ! i) = Inr p \<and> c ! i = conservative_pick p"
proof (induction ms arbitrary: c i)
  case Nil
  then show ?case by simp
next
  case (Cons m ms)
  from Cons.prems(1) obtain s p rest where
    p: "get_match_prediction m ''hybrid'' = Inr (s, p)" and
    rest: "conservative_combo ms = Inr rest" and
    c: "c = conservative_pick p # rest"
    by (auto split: sum.splits)
  from p have hp: "predict_match_hybrid m = Inr p"
    by (auto simp: get_match_prediction_def split: sum.splits)
  show ?case
  proof (cases i)
    case 0
    then show ?thesis using hp c by simp
  next
    case (Suc j)
    then show ?thesis using Cons.IH [OF rest, of j] Cons.prems(2) c by simp
  qed
qed




text \<open>
  Claim C8. Whenever the generator returns, the second combination is the
  Conservative one, and its symbol for each match is decided by the hybrid prediction
  of that match alone: the draw symbol when the hybrid draw probability is strictly
  greater than 0.25, whatever the home and away probabilities; otherwise the home
  symbol when the hybrid home probability is strictly greater than the away
  probability; otherwise the away symbol.
\<close>

theorem conservative_symbol:
  assumes "generate_stryktipset_combinations matches = Inr combos" and "i < length matches"
  shows "\<exists>p. predict_match_hybrid (matches ! i) = Inr p \<and>
     method_label (combos ! 1) = ''Conservative'' \<and>
     combination (combos ! 1) ! i =
       (if 25 / 100 < draw_prob p then ''X''
        else if away_prob p < home_prob p then ''1''
        else ''2'')"
proof -
  from assms(1) obtain c where c: "conservative_combo matches = Inr c"
    and k: "combination (combos ! 1) = c" "method_label (combos ! 1) = ''Conservative''"
    by (auto simp: generate_stryktipset_combinations_def split: sum.splits)
  show ?thesis
    using conservative_combo_nth [OF c assms(2)] k by (auto simp: conservative_pick_def)
qed

text \<open>The theorem at a match whose hybrid prediction is 0.397, 0.264, 0.34: the
  hybrid pick is the home symbol, the conservative pick is the draw symbol.\<close>

theorem conservative_symbol_witness:
  "generate_stryktipset_combinations
     [\<lparr>home_team_history = Some \<lparr>recent_form = Some [1, 1, 0, 1, 0]\<rparr>,
       away_team_history = None,
       odds = Some [(''home_win'', Num (31 / 10)), (''draw'', Num (5 / 2)),
                    (''away_win'', Num 3)]\<rparr>]
   = Inr [\<lparr>method_label = ''Hybrid Prediction'', combination = [''1''],
           description = ''Most likely outcome for each match'',
           confidence_tier = ''Medium''\<rparr>,
          \<lparr>method_label = ''Conservative'', combination = [''X''],
           description = ''Safer picks favoring draws and home wins'',
           confidence_tier = ''High''\<rparr>,
          \<lparr>method_label = ''Value Betting'', combination = [''X''],
           description = ''Looking for odds vs form discrepancies'',
           confidence_tier = ''Low''\<rparr>]
   \<and> (\<exists>p. predict_match_hybrid
     \<lparr>home_team_history = Some \<lparr>recent_form = Some [1, 1, 0, 1, 0]\<rparr>,
      away_team_history = None,
      odds = Some [(''home_win'', Num (31 / 10)), (''draw'', Num (5 / 2)),
                   (''away_win'', Num 3)]\<rparr> = Inr p
     \<and> ''X'' = (if 25 / 100 < draw_prob p then ''X''
                else if away_prob p < home_prob p then ''1'' else ''2''))"
proof -
  let ?m = "\<lparr>home_team_history = Some \<lparr>recent_form = Some [1, 1, 0, 1, 0]\<rparr>,
       away_team_history = None,
       odds = Some [(''home_win'', Num (31 / 10)), (''draw'', Num (5 / 2)),
                    (''away_win'', Num 3)]\<rparr>"
  let ?combos = "[\<lparr>method_label = ''Hybrid Prediction'', combination = [''1''],
           description = ''Most likely outcome for each match'',
           confidence_tier = ''Medium''\<rparr>,
          \<lparr>method_label = ''Conservative'', combination = [''X''],
           description = ''Safer picks favoring draws and home wins'',
           confidence_tier = ''High''\<rparr>,
          \<lparr>method_label = ''Value Betting'', combination = [''X''],
           description = ''Looking for odds vs form discrepancies'',
           confidence_tier = ''Low''\<rparr>]"
  have g: "generate_stryktipset_combinations [?m] = Inr ?combos" by code_simp
  have i: "0 < length [?m]" by simp
  have n: "[?m] ! 0 = ?m" "combination (?combos ! 1) ! 0 = ''X''"
    by (simp_all only: nth_Cons_0 nth_Cons_Suc One_nat_def combination.simps)
  from conservative_symbol [OF g i] show ?thesis
    unfolding n using g by blast
qed

subsection \<open>Round number\<close>

lemma us_per_day_pos: "0 < us_per_day"
  by (simp add: us_per_day_def)

lemma days_between:
  fixes a b t u :: int
  assumes "0 < u" "0 \<le> t" "t < u"
  shows "(a * u + t - b * u) div u = a - b" and "(a * u + t < b * u) = (a < b)"
proof -
  have e: "a * u + t - b * u = t + (a - b) * u" by (simp add: algebra_simps)
  have z: "t div u = 0" using assms(2,3) by (rule div_pos_pos_trivial)
  have "(a * u + t - b * u) div u = (t + (a - b) * u) div u" by (simp only: e)
  also have "\<dots> = t div u + (a - b)" using assms(1) by simp
  also have "\<dots> = a - b" by (simp only: z add_0_left)
  finally show "(a * u + t - b * u) div u = a - b" .
  show "(a * u + t < b * u) = (a < b)"
  proof
    assume "a * u + t < b * u"
    then have "a * u < b * u" using assms(2) by linarith
    then show "a < b" using assms(1) by (simp add: mult_less_cancel_right)
  next
    assume "a < b"
    then have "a + 1 \<le> b" by simp
    then have "(a + 1) * u \<le> b * u" using assms(1) by (simp add: mult_right_mono)
    then show "a * u + t < b * u" using assms(3) by (simp add: algebra_simps)
  qed
qed

lemma time_of_day_range:
  assumes "valid_time d"
  shows "0 \<le> time_of_day d" "time_of_day d < us_per_day"
proof -
  from assms have h: "0 \<le> hour d" "hour d \<le> 23" and m: "0 \<le> minute d" "minute d \<le> 59"
    and s: "0 \<le> second d" "second d \<le> 59" and u: "0 \<le> microsecond d" "microsecond d \<le> 999999"
    by (simp_all add: valid_time_def)
  define hm where "hm = hour d * 60 + minute d"
  define hms where "hms = hm * 60 + second d"
  have a1: "0 \<le> hm" and a2: "hm \<le> 1439" using h m unfolding hm_def by linarith+
  have b1: "0 \<le> hms" using a1 s(1) unfolding hms_def by linarith
  have b2: "hms \<le> 86399" using a2 s(2) unfolding hms_def by linarith
  have t: "time_of_day d = hms * 1000000 + microsecond d"
    by (simp add: time_of_day_def hms_def hm_def)
  show "0 \<le> time_of_day d" using b1 u(1) unfolding t by linarith
  show "time_of_day d < us_per_day" using b2 u(2) unfolding t us_per_day_def by linarith
qed

lemma moment_midnight: "moment (midnight y m d) = toordinal (midnight y m d) * us_per_day"
  by (simp add: moment_def time_of_day_def midnight_def)

lemma first_saturday_moment:
  "moment (midnight y 3 1) + (5 - weekday (midnight y 3 1)) mod 7 * us_per_day
     = season_start y * us_per_day"
  by (simp add: moment_midnight season_start_def algebra_simps)

lemma round_number_by_days:
  assumes "valid_time now"
  shows "get_current_round_number now =
     (if toordinal now < season_start (year now) then 1
      else min ((toordinal now - season_start (year now)) div 7 + 1) 35)"
proof -
  note t = time_of_day_range [OF assms]
  note d = days_between [OF us_per_day_pos t, of "toordinal now" "season_start (year now)"]
  show ?thesis
    unfolding get_current_round_number_def Let_def first_saturday_moment
    unfolding moment_def d by (rule refl)
qed

lemma season_start_saturday:
  "weekday_of_ordinal (season_start y) = 5"
  "toordinal (midnight y 3 1) \<le> season_start y"
  "season_start y < toordinal (midnight y 3 1) + 7"
  unfolding season_start_def weekday_def weekday_of_ordinal_def by presburger+

lemma processor_round_number_same:
  "processor_get_current_round_number now = get_current_round_number now"
  by (simp add: processor_get_current_round_number_def get_current_round_number_def)

text \<open>
  Claim C5. The season start the function computes is March 1 of the current year
  moved forward by \<open>(5 - weekday of March 1) mod 7\<close> days; it is a Saturday and lies
  in the seven days that begin with March 1, so it is the first Saturday on or after
  March 1. For a clock reading on a date before the season start the round is 1, on
  the date of the season start it is 1, on the date seven days later it is 2, and on
  every date from the season start on it is the number of whole weeks since the season
  start plus 1, clamped above at 35; so the round always lies between 1 and 35. The
  copy of the function in the data processor returns the same round.
\<close>

theorem round_of_clock_reading:
  assumes "valid_time now"
  shows "season_start (year now)
           = toordinal (midnight (year now) 3 1) + (5 - weekday (midnight (year now) 3 1)) mod 7
     \<and> weekday_of_ordinal (season_start (year now)) = 5
     \<and> toordinal (midnight (year now) 3 1) \<le> season_start (year now)
     \<and> season_start (year now) < toordinal (midnight (year now) 3 1) + 7
     \<and> (toordinal now < season_start (year now) \<longrightarrow> get_current_round_number now = 1)
     \<and> (toordinal now = season_start (year now) \<longrightarrow> get_current_round_number now = 1)
     \<and> (toordinal now = season_start (year now) + 7 \<longrightarrow> get_current_round_number now = 2)
     \<and> (season_start (year now) \<le> toordinal now \<longrightarrow>
          get_current_round_number now
            = min ((toordinal now - season_start (year now)) div 7 + 1) 35)
     \<and> 1 \<le> get_current_round_number now \<and> get_current_round_number now \<le> 35
     \<and> processor_get_current_round_number now = get_current_round_number now"
proof -
  note r = round_number_by_days [OF assms]
  have a: "season_start (year now)
           = toordinal (midnight (year now) 3 1) + (5 - weekday (midnight (year now) 3 1)) mod 7"
    by (simp add: season_start_def)
  have b: "toordinal now < season_start (year now) \<longrightarrow> get_current_round_number now = 1"
    using r by simp
  have c: "toordinal now = season_start (year now) \<longrightarrow> get_current_round_number now = 1"
    using r by simp
  have d: "toordinal now = season_start (year now) + 7 \<longrightarrow> get_current_round_number now = 2"
    using r by simp
  have e: "season_start (year now) \<le> toordinal now \<longrightarrow>
          get_current_round_number now
            = min ((toordinal now - season_start (year now)) div 7 + 1) 35"
    using r by simp
  have f: "1 \<le> get_current_round_number now" "get_current_round_number now \<le> 35"
    unfolding r by (simp_all add: pos_imp_zdiv_nonneg_iff)
  show ?thesis
    using a season_start_saturday [of "year now"] b c d e f processor_round_number_same [of now]
    by (intro conjI)
qed

text \<open>The theorem on 9 March 2024 at 15:00, seven days after the first Saturday of
  March 2024, and in the last microsecond of 29 February 2024.\<close>

theorem round_of_clock_reading_witness:
  "valid_time \<lparr>year = 2024, month = 3, day = 9, hour = 15, minute = 0, second = 0, microsecond = 0\<rparr>
   \<and> toordinal \<lparr>year = 2024, month = 3, day = 9, hour = 15, minute = 0, second = 0, microsecond = 0\<rparr>
       = season_start 2024 + 7
   \<and> get_current_round_number
         \<lparr>year = 2024, month = 3, day = 9, hour = 15, minute = 0, second = 0, microsecond = 0\<rparr> = 2
   \<and> valid_time \<lparr>year = 2024, month = 2, day = 29, hour = 23, minute = 59, second = 59, microsecond = 999999\<rparr>
   \<and> toordinal \<lparr>year = 2024, month = 2, day = 29, hour = 23, minute = 59, second = 59, microsecond = 999999\<rparr>
       < season_start 2024
   \<and> get_current_round_number
         \<lparr>year = 2024, month = 2, day = 29, hour = 23, minute = 59, second = 59, microsecond = 999999\<rparr> = 1"
proof -
  let ?a = "\<lparr>year = 2024, month = 3, day = 9, hour = 15, minute = 0, second = 0, microsecond = 0\<rparr>"
  let ?b = "\<lparr>year = 2024, month = 2, day = 29, hour = 23, minute = 59, second = 59, microsecond = 999999\<rparr>"
  have va: "valid_time ?a" and vb: "valid_time ?b" by (simp_all add: valid_time_def)
  have oa: "toordinal ?a = season_start 2024 + 7" by code_simp
  have ob: "toordinal ?b < season_start 2024" by code_simp
  show ?thesis using va vb oa ob round_of_clock_reading [OF va] round_of_clock_reading [OF vb] by simp
qed

subsection \<open>The prediction run\<close>

text \<open>
  Claim C2, as amended. A failure raised by the store while the matches are read is
  caught by \<^verbatim>\<open>load_current_matches\<close>, printed, and replaced by the empty list: the
  run then ends as it does for an empty table, returning nothing and raising nothing,
  and the two cases differ only in the line the loader prints. A failure raised while
  the combinations are generated, or by the store while the old predictions are
  deleted or the new ones inserted, is raised unchanged by the run.
\<close>

theorem read_failure_swallowed:
  "(select_matches st = Inl e \<longrightarrow>
      run_prediction_engine st now =
        ([Starting_prediction_generation, Prediction_date now, Loading_matches,
          Error_loading_matches e, No_matches_cannot_generate], Returned_nothing))
   \<and> (select_matches st = Inr [] \<longrightarrow>
      run_prediction_engine st now =
        ([Starting_prediction_generation, Prediction_date now, Loading_matches,
          No_matches_in_database, No_matches_cannot_generate], Returned_nothing))
   \<and> (select_matches st = Inr ms \<and> ms \<noteq> [] \<and> generate_stryktipset_combinations ms = Inl e \<longrightarrow>
      snd (run_prediction_engine st now) = Raised e)
   \<and> (select_matches st = Inr ms \<and> ms \<noteq> [] \<and> generate_stryktipset_combinations ms = Inr ps \<and>
      delete_predictions st (get_current_round_number now) = Some e \<longrightarrow>
      snd (run_prediction_engine st now) = Raised e)
   \<and> (select_matches st = Inr ms \<and> ms \<noteq> [] \<and> generate_stryktipset_combinations ms = Inr ps \<and>
      delete_predictions st (get_current_round_number now) = None \<and>
      insert_predictions st (prediction_records (get_current_round_number now) now 0 ps) = Inl e \<longrightarrow>
      snd (run_prediction_engine st now) = Raised e)"
  by (simp add: run_prediction_engine_def load_current_matches_def store_predictions_def Let_def)

text \<open>The theorem at a store whose read times out, and at a store with one match
  whose delete times out.\<close>

theorem read_failure_swallowed_witness:
  "run_prediction_engine
     \<lparr>select_matches = Inl (StoreError ''timeout''),
      delete_predictions = (\<lambda>r. None), insert_predictions = (\<lambda>rs. Inr rs)\<rparr>
     \<lparr>year = 2024, month = 3, day = 9, hour = 15, minute = 0, second = 0, microsecond = 0\<rparr>
   = ([Starting_prediction_generation,
       Prediction_date \<lparr>year = 2024, month = 3, day = 9, hour = 15, minute = 0, second = 0,
          microsecond = 0\<rparr>,
       Loading_matches, Error_loading_matches (StoreError ''timeout''),
       No_matches_cannot_generate], Returned_nothing)
   \<and> snd (run_prediction_engine
     \<lparr>select_matches = Inr [\<lparr>home_team_history = None, away_team_history = None, odds = None\<rparr>],
      delete_predictions = (\<lambda>r. Some (StoreError ''timeout'')),
      insert_predictions = (\<lambda>rs. Inr rs)\<rparr>
     \<lparr>year = 2024, month = 3, day = 9, hour = 15, minute = 0, second = 0, microsecond = 0\<rparr>)
   = Raised (StoreError ''timeout'')"
proof -
  let ?now = "\<lparr>year = 2024, month = 3, day = 9, hour = 15, minute = 0, second = 0, microsecond = 0\<rparr>"
  let ?m = "\<lparr>home_team_history = None, away_team_history = None, odds = None\<rparr>"
  let ?s1 = "\<lparr>select_matches = Inl (StoreError ''timeout''),
      delete_predictions = (\<lambda>r. None), insert_predictions = (\<lambda>rs. Inr rs)\<rparr>"
  let ?s2 = "\<lparr>select_matches = Inr [?m],
      delete_predictions = (\<lambda>r. Some (StoreError ''timeout'')),
      insert_predictions = (\<lambda>rs. Inr rs)\<rparr>"
  let ?ps = "[\<lparr>method_label = ''Hybrid Prediction'', combination = [''1''],
           description = ''Most likely outcome for each match'',
           confidence_tier = ''Medium''\<rparr>,
          \<lparr>method_label = ''Conservative'', combination = [''1''],
           description = ''Safer picks favoring draws and home wins'',
           confidence_tier = ''High''\<rparr>,
          \<lparr>method_label = ''Value Betting'', combination = [''1''],
           description = ''Looking for odds vs form discrepancies'',
           confidence_tier = ''Low''\<rparr>]"
  have g: "generate_stryktipset_combinations [?m] = Inr ?ps" by code_simp
  show ?thesis
    using read_failure_swallowed [of ?s1 "StoreError ''timeout''" ?now]
      read_failure_swallowed [of ?s2 "StoreError ''timeout''" ?now "[?m]" ?ps]
    by (simp add: g)
qed

text \<open>
  Claim C2 as it was stated lets the failure of the read end the run with that
  error. With a store whose read raises, the run returns nothing, exactly as with a
  store whose table of matches is empty, and raises no error.
\<close>

theorem read_failure_counterexample:
  "snd (run_prediction_engine
     \<lparr>select_matches = Inl (StoreError ''connection refused''),
      delete_predictions = (\<lambda>r. None), insert_predictions = (\<lambda>rs. Inr rs)\<rparr>
     \<lparr>year = 2024, month = 3, day = 9, hour = 15, minute = 0, second = 0, microsecond = 0\<rparr>)
   = Returned_nothing
   \<and> snd (run_prediction_engine
     \<lparr>select_matches = Inr [],
      delete_predictions = (\<lambda>r. None), insert_predictions = (\<lambda>rs. Inr rs)\<rparr>
     \<lparr>year = 2024, month = 3, day = 9, hour = 15, minute = 0, second = 0, microsecond = 0\<rparr>)
   = Returned_nothing
   \<and> Returned_nothing \<noteq> Raised (StoreError ''connection refused'')"
  by (simp add: run_prediction_engine_def load_current_matches_def)

end
